theory Spec2Isabelle
  imports Complex_Main
begin

section \<open>Scalars, vectors, quaternions and matrices\<close>

text \<open>
  The class \<^verbatim>\<open>initial_sfm::IntegrationBase\<close> of
  \<^verbatim>\<open>msckf_vio/include/initial_sfm/integration_base.h\<close> computes with C++
  \<^verbatim>\<open>double\<close> and with the fixed-size types of the Eigen library. The embedding
  reads every \<^verbatim>\<open>double\<close> as a real number: rounding, overflow, NaN and infinities
  are outside the model, and every statement below is a statement about the exact
  arithmetic that the code approximates. The Eigen operations are written out the way
  Eigen 3.3 computes them, each operator of a C++ expression in the order in which C++
  applies it.
\<close>

datatype vec3 = Vector3d (vx: real) (vy: real) (vz: real)

definition vec3_Zero :: vec3 where
  "vec3_Zero = Vector3d 0 0 0"

definition vadd :: "vec3 \<Rightarrow> vec3 \<Rightarrow> vec3" where
  "vadd u v = Vector3d (vx u + vx v) (vy u + vy v) (vz u + vz v)"

definition vsub :: "vec3 \<Rightarrow> vec3 \<Rightarrow> vec3" where
  "vsub u v = Vector3d (vx u - vx v) (vy u - vy v) (vz u - vz v)"

definition smulv :: "real \<Rightarrow> vec3 \<Rightarrow> vec3" where
  \<comment> \<open>scalar * vector\<close>
  "smulv a v = Vector3d (a * vx v) (a * vy v) (a * vz v)"

definition vmuls :: "vec3 \<Rightarrow> real \<Rightarrow> vec3" where
  \<comment> \<open>vector * scalar\<close>
  "vmuls v a = Vector3d (vx v * a) (vy v * a) (vz v * a)"

definition cross :: "vec3 \<Rightarrow> vec3 \<Rightarrow> vec3" where
  "cross u v = Vector3d (vy u * vz v - vz u * vy v)
                        (vz u * vx v - vx u * vz v)
                        (vx u * vy v - vy u * vx v)"

definition vec_squaredNorm :: "vec3 \<Rightarrow> real" where
  "vec_squaredNorm v = vx v * vx v + vy v * vy v + vz v * vz v"

text \<open>
  \<^verbatim>\<open>Quaterniond(w, x, y, z)\<close>: the constructor takes the scalar part first.
  The product is the Hamilton product, \<^verbatim>\<open>q * v\<close> is Eigen's
  \<^verbatim>\<open>_transformVector\<close> (which rotates only when \<open>q\<close> has unit norm),
  \<^verbatim>\<open>normalize\<close> divides by the norm when the squared norm is positive, and
  \<^verbatim>\<open>inverse\<close> is the conjugate over the squared norm, or zero.
\<close>

datatype quat = Quaterniond (qw: real) (qx: real) (qy: real) (qz: real)

definition quat_Identity :: quat where
  "quat_Identity = Quaterniond 1 0 0 0"

definition qmul :: "quat \<Rightarrow> quat \<Rightarrow> quat" where
  "qmul a b = Quaterniond
     (qw a * qw b - qx a * qx b - qy a * qy b - qz a * qz b)
     (qw a * qx b + qx a * qw b + qy a * qz b - qz a * qy b)
     (qw a * qy b + qy a * qw b + qz a * qx b - qx a * qz b)
     (qw a * qz b + qz a * qw b + qx a * qy b - qy a * qx b)"

definition quat_vec :: "quat \<Rightarrow> vec3" where
  "quat_vec q = Vector3d (qx q) (qy q) (qz q)"

definition qrot :: "quat \<Rightarrow> vec3 \<Rightarrow> vec3" where
  "qrot q v = (let uv = cross (quat_vec q) v;
                   uv2 = vadd uv uv
               in vadd (vadd v (smulv (qw q) uv2)) (cross (quat_vec q) uv2))"

definition squaredNorm :: "quat \<Rightarrow> real" where
  "squaredNorm q = qx q * qx q + qy q * qy q + qz q * qz q + qw q * qw q"

definition normalize_quat :: "quat \<Rightarrow> quat" where
  "normalize_quat q = (let z = squaredNorm q
                  in if z > 0
                     then Quaterniond (qw q / sqrt z) (qx q / sqrt z) (qy q / sqrt z) (qz q / sqrt z)
                     else q)"

definition conjugate :: "quat \<Rightarrow> quat" where
  "conjugate q = Quaterniond (qw q) (- qx q) (- qy q) (- qz q)"

definition qinverse :: "quat \<Rightarrow> quat" where
  "qinverse q = (let n2 = squaredNorm q
                 in if n2 > 0
                    then Quaterniond (qw (conjugate q) / n2) (qx (conjugate q) / n2)
                                     (qy (conjugate q) / n2) (qz (conjugate q) / n2)
                    else Quaterniond 0 0 0 0)"

text \<open>
  A matrix of any of the fixed sizes of the source (3x3, 15x15, 15x18, 18x18) is a
  function from a row and a column index to its entry. The product takes the inner
  dimension as a parameter; a 3x3 block is written and read at a row and column offset,
  as \<^verbatim>\<open>M.block<3, 3>(r, c)\<close> does.
\<close>

type_synonym mat = "nat \<Rightarrow> nat \<Rightarrow> real"

definition Zero_mat :: mat where
  "Zero_mat = (\<lambda>i j. 0)"

definition Identity_mat :: "nat \<Rightarrow> mat" where
  "Identity_mat n = (\<lambda>i j. if i = j \<and> i < n then 1 else 0)"

definition mmul :: "nat \<Rightarrow> mat \<Rightarrow> mat \<Rightarrow> mat" where
  "mmul n A B = (\<lambda>i j. \<Sum>k<n. A i k * B k j)"

definition madd :: "mat \<Rightarrow> mat \<Rightarrow> mat" where
  "madd A B = (\<lambda>i j. A i j + B i j)"

definition msub :: "mat \<Rightarrow> mat \<Rightarrow> mat" where
  "msub A B = (\<lambda>i j. A i j - B i j)"

definition mneg :: "mat \<Rightarrow> mat" where
  "mneg A = (\<lambda>i j. - A i j)"

definition smulm :: "real \<Rightarrow> mat \<Rightarrow> mat" where
  \<comment> \<open>scalar * matrix\<close>
  "smulm a A = (\<lambda>i j. a * A i j)"

definition mmuls :: "mat \<Rightarrow> real \<Rightarrow> mat" where
  \<comment> \<open>matrix * scalar\<close>
  "mmuls A a = (\<lambda>i j. A i j * a)"

definition mtranspose :: "mat \<Rightarrow> mat" where
  "mtranspose A = (\<lambda>i j. A j i)"

definition set_block3 :: "mat \<Rightarrow> nat \<Rightarrow> nat \<Rightarrow> mat \<Rightarrow> mat" where
  \<comment> \<open>\<^verbatim>\<open>M.block<3, 3>(r, c) = B\<close>\<close>
  "set_block3 M r c B =
     (\<lambda>i j. if r \<le> i \<and> i < r + 3 \<and> c \<le> j \<and> j < c + 3 then B (i - r) (j - c) else M i j)"

definition block3 :: "mat \<Rightarrow> nat \<Rightarrow> nat \<Rightarrow> mat" where
  \<comment> \<open>the value of \<^verbatim>\<open>M.block<3, 3>(r, c)\<close>\<close>
  "block3 M r c = (\<lambda>i j. if i < 3 \<and> j < 3 then M (r + i) (c + j) else 0)"

definition Matrix3d_rows :: "real \<Rightarrow> real \<Rightarrow> real \<Rightarrow> real \<Rightarrow> real \<Rightarrow> real \<Rightarrow> real \<Rightarrow> real \<Rightarrow> real \<Rightarrow> mat" where
  \<comment> \<open>the comma initialiser \<^verbatim>\<open>M << a, b, c, d, e, f, g, h, k\<close>, row by row\<close>
  "Matrix3d_rows a b c d e f g h k =
     (\<lambda>i j. if i = 0 then (if j = 0 then a else if j = 1 then b else if j = 2 then c else 0)
             else if i = 1 then (if j = 0 then d else if j = 1 then e else if j = 2 then f else 0)
             else if i = 2 then (if j = 0 then g else if j = 1 then h else if j = 2 then k else 0)
             else 0)"

definition mat_vec3 :: "mat \<Rightarrow> vec3 \<Rightarrow> vec3" where
  \<comment> \<open>3x3 matrix * 3-vector\<close>
  "mat_vec3 M v = Vector3d (M 0 0 * vx v + M 0 1 * vy v + M 0 2 * vz v)
                           (M 1 0 * vx v + M 1 1 * vy v + M 1 2 * vz v)
                           (M 2 0 * vx v + M 2 1 * vy v + M 2 2 * vz v)"

definition toRotationMatrix :: "quat \<Rightarrow> mat" where
  "toRotationMatrix q =
     (let tx = 2 * qx q; ty = 2 * qy q; tz = 2 * qz q;
          twx = tx * qw q; twy = ty * qw q; twz = tz * qw q;
          txx = tx * qx q; txy = ty * qx q; txz = tz * qx q;
          tyy = ty * qy q; tyz = tz * qy q; tzz = tz * qz q
      in Matrix3d_rows (1 - (tyy + tzz)) (txy - twz) (txz + twy)
                       (txy + twz) (1 - (txx + tzz)) (tyz - twx)
                       (txz - twy) (tyz + twx) (1 - (txx + tyy)))"

section \<open>The integration state\<close>

text \<open>
  The file-level constants of the source. \<^verbatim>\<open>G\<close> is the gravity vector that only
  \<^verbatim>\<open>evaluate\<close> reads.
\<close>

definition ACC_N :: real where "ACC_N = 8 / 100"
definition ACC_W :: real where "ACC_W = 4 / 100000"
definition GYR_N :: real where "GYR_N = 4 / 1000"
definition GYR_W :: real where "GYR_W = 2 / 1000000"
definition G :: vec3 where "G = Vector3d 0 0 (981 / 100)"

text \<open>
  The data members of the class, in the order of their declaration. The constructor
  leaves \<^verbatim>\<open>dt\<close>, \<^verbatim>\<open>acc_1\<close> and \<^verbatim>\<open>gyr_1\<close> uninitialised: they are
  \<open>None\<close> until \<^verbatim>\<open>propagate\<close> writes them. The members
  \<^verbatim>\<open>step_jacobian\<close> and \<^verbatim>\<open>step_V\<close> are never read or written by any
  function of the class and are left out.
\<close>

record integration_state =
  dt :: "real option"
  acc_0 :: vec3
  gyr_0 :: vec3
  acc_1 :: "vec3 option"
  gyr_1 :: "vec3 option"
  linearized_acc :: vec3
  linearized_gyr :: vec3
  linearized_ba :: vec3
  linearized_bg :: vec3
  jacobian :: mat
  covariance :: mat
  noise :: mat
  sum_dt :: real
  delta_p :: vec3
  delta_q :: quat
  delta_v :: vec3
  dt_buf :: "real list"
  acc_buf :: "vec3 list"
  gyr_buf :: "vec3 list"

definition noise_init :: mat where
  \<comment> \<open>the body of the constructor: the 18x18 matrix Q\<close>
  "noise_init =
     (let n0 = Zero_mat;
          n1 = set_block3 n0 0 0 (smulm (ACC_N * ACC_N) (Identity_mat 3));
          n2 = set_block3 n1 3 3 (smulm (GYR_N * GYR_N) (Identity_mat 3));
          n3 = set_block3 n2 6 6 (smulm (ACC_N * ACC_N) (Identity_mat 3));
          n4 = set_block3 n3 9 9 (smulm (GYR_N * GYR_N) (Identity_mat 3));
          n5 = set_block3 n4 12 12 (smulm (ACC_W * ACC_W) (Identity_mat 3));
          n6 = set_block3 n5 15 15 (smulm (GYR_W * GYR_W) (Identity_mat 3))
      in n6)"

definition IntegrationBase :: "vec3 \<Rightarrow> vec3 \<Rightarrow> vec3 \<Rightarrow> vec3 \<Rightarrow> integration_state" where
  "IntegrationBase acc_0' gyr_0' linearized_ba' linearized_bg' =
     \<lparr> dt = None,
       acc_0 = acc_0', gyr_0 = gyr_0',
       acc_1 = None, gyr_1 = None,
       linearized_acc = acc_0', linearized_gyr = gyr_0',
       linearized_ba = linearized_ba', linearized_bg = linearized_bg',
       jacobian = Identity_mat 15,
       covariance = Zero_mat,
       noise = noise_init,
       sum_dt = 0,
       delta_p = vec3_Zero,
       delta_q = quat_Identity,
       delta_v = vec3_Zero,
       dt_buf = [], acc_buf = [], gyr_buf = [] \<rparr>"

section \<open>Mid-point integration\<close>

definition skew :: "vec3 \<Rightarrow> mat" where
  \<comment> \<open>the three comma initialisers \<^verbatim>\<open>R_w_x\<close>, \<^verbatim>\<open>R_a_0_x\<close>, \<^verbatim>\<open>R_a_1_x\<close>\<close>
  "skew w = Matrix3d_rows 0 (- vz w) (vy w)
                          (vz w) 0 (- vx w)
                          (- vy w) (vx w) 0"

definition step_F :: "real \<Rightarrow> vec3 \<Rightarrow> vec3 \<Rightarrow> vec3 \<Rightarrow> vec3 \<Rightarrow> quat \<Rightarrow> quat \<Rightarrow> vec3 \<Rightarrow> vec3 \<Rightarrow> mat" where
  \<comment> \<open>the matrix \<^verbatim>\<open>F\<close> of the branch \<^verbatim>\<open>if(update_jacobian)\<close>\<close>
  "step_F dt' acc_0' gyr_0' acc_1' gyr_1' delta_q' result_delta_q' linearized_ba' linearized_bg' =
     (let w_x = vsub (smulv 0.5 (vadd gyr_0' gyr_1')) linearized_bg';
          a_0_x = vsub acc_0' linearized_ba';
          a_1_x = vsub acc_1' linearized_ba';
          R_w_x = skew w_x;
          R_a_0_x = skew a_0_x;
          R_a_1_x = skew a_1_x;
          R0 = toRotationMatrix delta_q';
          R1 = toRotationMatrix result_delta_q';
          I3 = Identity_mat 3;
          F0 = Zero_mat;
          F1 = set_block3 F0 0 0 I3;
          F2 = set_block3 F1 0 3
                 (madd (mmuls (mmuls (mmul 3 (smulm (- 0.25) R0) R_a_0_x) dt') dt')
                       (mmuls (mmuls (mmul 3 (mmul 3 (smulm (- 0.25) R1) R_a_1_x)
                                             (msub I3 (mmuls R_w_x dt'))) dt') dt'));
          F3 = set_block3 F2 0 6 (mmuls I3 dt');
          F4 = set_block3 F3 0 9 (mmuls (mmuls (smulm (- 0.25) (madd R0 R1)) dt') dt');
          F5 = set_block3 F4 0 12
                 (mmuls (mmuls (mmuls (mmul 3 (smulm (- 0.25) R1) R_a_1_x) dt') dt') (- dt'));
          F6 = set_block3 F5 3 3 (msub I3 (mmuls R_w_x dt'));
          F7 = set_block3 F6 3 12 (mmuls (smulm (- 1) I3) dt');
          F8 = set_block3 F7 6 3
                 (madd (mmuls (mmul 3 (smulm (- 0.5) R0) R_a_0_x) dt')
                       (mmuls (mmul 3 (mmul 3 (smulm (- 0.5) R1) R_a_1_x)
                                      (msub I3 (mmuls R_w_x dt'))) dt'));
          F9 = set_block3 F8 6 6 I3;
          F10 = set_block3 F9 6 9 (mmuls (smulm (- 0.5) (madd R0 R1)) dt');
          F11 = set_block3 F10 6 12
                  (mmuls (mmuls (mmul 3 (smulm (- 0.5) R1) R_a_1_x) dt') (- dt'));
          F12 = set_block3 F11 9 9 I3;
          F13 = set_block3 F12 12 12 I3
      in F13)"

definition step_V :: "real \<Rightarrow> vec3 \<Rightarrow> quat \<Rightarrow> quat \<Rightarrow> vec3 \<Rightarrow> mat" where
  \<comment> \<open>the matrix \<^verbatim>\<open>V\<close> of the same branch\<close>
  "step_V dt' acc_1' delta_q' result_delta_q' linearized_ba' =
     (let a_1_x = vsub acc_1' linearized_ba';
          R_a_1_x = skew a_1_x;
          R0 = toRotationMatrix delta_q';
          R1 = toRotationMatrix result_delta_q';
          I3 = Identity_mat 3;
          V0 = Zero_mat;
          V1 = set_block3 V0 0 0 (mmuls (mmuls (smulm 0.25 R0) dt') dt');
          V2 = set_block3 V1 0 3
                 (mmuls (mmuls (mmuls (mmuls (mmul 3 (smulm 0.25 (mneg R1)) R_a_1_x) dt') dt') 0.5) dt');
          V3 = set_block3 V2 0 6 (mmuls (mmuls (smulm 0.25 R1) dt') dt');
          V4 = set_block3 V3 0 9 (block3 V3 0 3);
          V5 = set_block3 V4 3 3 (mmuls (smulm 0.5 I3) dt');
          V6 = set_block3 V5 3 9 (mmuls (smulm 0.5 I3) dt');
          V7 = set_block3 V6 6 0 (mmuls (smulm 0.5 R0) dt');
          V8 = set_block3 V7 6 3
                 (mmuls (mmuls (mmuls (mmul 3 (smulm 0.5 (mneg R1)) R_a_1_x) dt') 0.5) dt');
          V9 = set_block3 V8 6 6 (mmuls (smulm 0.5 R1) dt');
          V10 = set_block3 V9 6 9 (block3 V9 6 3);
          V11 = set_block3 V10 9 12 (mmuls I3 dt');
          V12 = set_block3 V11 12 15 (mmuls I3 dt')
      in V12)"

text \<open>
  \<^verbatim>\<open>midPointIntegration\<close> writes its five results through reference parameters
  and, when \<^verbatim>\<open>update_jacobian\<close> is set, the members \<^verbatim>\<open>jacobian\<close> and
  \<^verbatim>\<open>covariance\<close>. The model returns the five results as a record together with
  the updated object. Eigen evaluates a matrix product into a temporary before it is
  assigned, so both assignments read the old members on their right-hand sides;
  \<^verbatim>\<open>A * B * C\<close> is \<^verbatim>\<open>(A * B) * C\<close>.
\<close>

record midpoint_result =
  result_delta_p :: vec3
  result_delta_q :: quat
  result_delta_v :: vec3
  result_linearized_ba :: vec3
  result_linearized_bg :: vec3

definition midPointIntegration ::
  "integration_state \<Rightarrow> real \<Rightarrow> vec3 \<Rightarrow> vec3 \<Rightarrow> vec3 \<Rightarrow> vec3 \<Rightarrow> vec3 \<Rightarrow> quat \<Rightarrow> vec3 \<Rightarrow> vec3 \<Rightarrow> vec3 \<Rightarrow> bool
     \<Rightarrow> midpoint_result \<times> integration_state" where
  "midPointIntegration s dt' acc_0' gyr_0' acc_1' gyr_1' delta_p' delta_q' delta_v'
       linearized_ba' linearized_bg' update_jacobian =
     (let un_acc_0 = qrot delta_q' (vsub acc_0' linearized_ba');
          un_gyr = vsub (smulv 0.5 (vadd gyr_0' gyr_1')) linearized_bg';
          r_delta_q = qmul delta_q'
                        (Quaterniond 1 (vx un_gyr * dt' / 2) (vy un_gyr * dt' / 2) (vz un_gyr * dt' / 2));
          un_acc_1 = qrot r_delta_q (vsub acc_1' linearized_ba');
          un_acc = smulv 0.5 (vadd un_acc_0 un_acc_1);
          r_delta_p = vadd (vadd delta_p' (vmuls delta_v' dt'))
                           (vmuls (vmuls (smulv 0.5 un_acc) dt') dt');
          r_delta_v = vadd delta_v' (vmuls un_acc dt');
          res = \<lparr> result_delta_p = r_delta_p, result_delta_q = r_delta_q,
                  result_delta_v = r_delta_v,
                  result_linearized_ba = linearized_ba',
                  result_linearized_bg = linearized_bg' \<rparr>
      in if update_jacobian
         then (let F = step_F dt' acc_0' gyr_0' acc_1' gyr_1' delta_q' r_delta_q
                         linearized_ba' linearized_bg';
                   V = step_V dt' acc_1' delta_q' r_delta_q linearized_ba';
                   s1 = s\<lparr>jacobian := mmul 15 F (jacobian s)\<rparr>;
                   s2 = s1\<lparr>covariance :=
                           madd (mmul 15 (mmul 15 F (covariance s1)) (mtranspose F))
                                (mmul 18 (mmul 18 V (noise s1)) (mtranspose V))\<rparr>
               in (res, s2))
         else (res, s))"

definition propagate :: "integration_state \<Rightarrow> real \<Rightarrow> vec3 \<Rightarrow> vec3 \<Rightarrow> integration_state" where
  "propagate s dt' acc_1' gyr_1' =
     (let s1 = s\<lparr>dt := Some dt'\<rparr>;
          s2 = s1\<lparr>acc_1 := Some acc_1'\<rparr>;
          s3 = s2\<lparr>gyr_1 := Some gyr_1'\<rparr>;
          (res, s4) = midPointIntegration s3 dt' (acc_0 s3) (gyr_0 s3) acc_1' gyr_1'
                        (delta_p s3) (delta_q s3) (delta_v s3)
                        (linearized_ba s3) (linearized_bg s3) True;
          s5 = s4\<lparr>delta_p := result_delta_p res\<rparr>;
          s6 = s5\<lparr>delta_q := result_delta_q res\<rparr>;
          s7 = s6\<lparr>delta_v := result_delta_v res\<rparr>;
          s8 = s7\<lparr>linearized_ba := result_linearized_ba res\<rparr>;
          s9 = s8\<lparr>linearized_bg := result_linearized_bg res\<rparr>;
          s10 = s9\<lparr>delta_q := normalize_quat (delta_q s9)\<rparr>;
          s11 = s10\<lparr>sum_dt := sum_dt s10 + the (dt s10)\<rparr>;
          s12 = s11\<lparr>acc_0 := the (acc_1 s11)\<rparr>;
          s13 = s12\<lparr>gyr_0 := the (gyr_1 s12)\<rparr>
      in s13)"

definition push_back :: "integration_state \<Rightarrow> real \<Rightarrow> vec3 \<Rightarrow> vec3 \<Rightarrow> integration_state" where
  "push_back s dt' acc gyr =
     (let s1 = s\<lparr>dt_buf := dt_buf s @ [dt']\<rparr>;
          s2 = s1\<lparr>acc_buf := acc_buf s1 @ [acc]\<rparr>;
          s3 = s2\<lparr>gyr_buf := gyr_buf s2 @ [gyr]\<rparr>
      in propagate s3 dt' acc gyr)"

text \<open>
  The values of the locals \<^verbatim>\<open>un_gyr\<close>, \<^verbatim>\<open>result_delta_q\<close> and
  \<^verbatim>\<open>un_acc\<close> of \<^verbatim>\<open>midPointIntegration\<close> when \<^verbatim>\<open>propagate\<close>
  calls it on the object \<open>s\<close>, named so that statements about a step can refer to them.
\<close>

definition un_gyr_of :: "integration_state \<Rightarrow> vec3 \<Rightarrow> vec3" where
  "un_gyr_of s gyr_1' = vsub (smulv 0.5 (vadd (gyr_0 s) gyr_1')) (linearized_bg s)"

definition result_delta_q_of :: "integration_state \<Rightarrow> real \<Rightarrow> vec3 \<Rightarrow> quat" where
  "result_delta_q_of s dt' gyr_1' =
     qmul (delta_q s)
       (Quaterniond 1 (vx (un_gyr_of s gyr_1') * dt' / 2) (vy (un_gyr_of s gyr_1') * dt' / 2)
                      (vz (un_gyr_of s gyr_1') * dt' / 2))"

definition un_acc_of :: "integration_state \<Rightarrow> real \<Rightarrow> vec3 \<Rightarrow> vec3 \<Rightarrow> vec3" where
  "un_acc_of s dt' acc_1' gyr_1' =
     smulv 0.5 (vadd (qrot (delta_q s) (vsub (acc_0 s) (linearized_ba s)))
                     (qrot (result_delta_q_of s dt' gyr_1') (vsub acc_1' (linearized_ba s))))"

definition F_of :: "integration_state \<Rightarrow> real \<Rightarrow> vec3 \<Rightarrow> vec3 \<Rightarrow> mat" where
  "F_of s dt' acc_1' gyr_1' =
     step_F dt' (acc_0 s) (gyr_0 s) acc_1' gyr_1' (delta_q s) (result_delta_q_of s dt' gyr_1')
       (linearized_ba s) (linearized_bg s)"

definition V_of :: "integration_state \<Rightarrow> real \<Rightarrow> vec3 \<Rightarrow> vec3 \<Rightarrow> mat" where
  "V_of s dt' acc_1' gyr_1' =
     step_V dt' acc_1' (delta_q s) (result_delta_q_of s dt' gyr_1') (linearized_ba s)"

section \<open>Repropagation\<close>

text \<open>
  The loop of \<^verbatim>\<open>repropagate\<close>, from index \<open>i\<close> on. It runs over
  \<^verbatim>\<open>dt_buf.size()\<close> (cast to \<^verbatim>\<open>int\<close>; the model counts with natural
  numbers) and reads the three buffers with the unchecked
  \<^verbatim>\<open>operator[]\<close>: a read beyond the end of \<^verbatim>\<open>acc_buf\<close> or
  \<^verbatim>\<open>gyr_buf\<close> has no defined behaviour, and the model answers \<open>None\<close> there.
  The three buffers are public members, so their lengths can differ; \<^verbatim>\<open>push_back\<close>
  keeps them equal.
\<close>

function replay :: "nat \<Rightarrow> integration_state \<Rightarrow> integration_state option" where
  "replay i s =
     (if i < length (dt_buf s)
      then (if i < length (acc_buf s) \<and> i < length (gyr_buf s)
            then replay (Suc i) (propagate s (dt_buf s ! i) (acc_buf s ! i) (gyr_buf s ! i))
            else None)
      else Some s)"
  by pat_completeness auto
termination
proof (relation "measure (\<lambda>(i, s). length (dt_buf s) - i)")
  show "wf (measure (\<lambda>(i, s). length (dt_buf s) - i))" by simp
next
  fix i :: nat and s :: integration_state
  assume "i < length (dt_buf s)"
  moreover have "dt_buf (snd (midPointIntegration t d a0 g0 a1 g1 p q v ba bg True)) = dt_buf t"
    for t d a0 g0 a1 g1 p q v ba bg
    by (simp add: midPointIntegration_def Let_def)
  then have "dt_buf (propagate s (dt_buf s ! i) (acc_buf s ! i) (gyr_buf s ! i)) = dt_buf s"
    unfolding propagate_def Let_def case_prod_beta by simp
  ultimately show "((Suc i, propagate s (dt_buf s ! i) (acc_buf s ! i) (gyr_buf s ! i)), (i, s))
       \<in> measure (\<lambda>(i, s). length (dt_buf s) - i)"
    by simp
qed

declare replay.simps [simp del]

definition repropagate :: "integration_state \<Rightarrow> vec3 \<Rightarrow> vec3 \<Rightarrow> integration_state option" where
  "repropagate s linearized_ba' linearized_bg' =
     (let s1 = s\<lparr>sum_dt := 0\<rparr>;
          s2 = s1\<lparr>acc_0 := linearized_acc s1\<rparr>;
          s3 = s2\<lparr>gyr_0 := linearized_gyr s2\<rparr>;
          s4 = s3\<lparr>delta_p := vec3_Zero\<rparr>;
          s5 = s4\<lparr>delta_q := quat_Identity\<rparr>;
          s6 = s5\<lparr>delta_v := vec3_Zero\<rparr>;
          s7 = s6\<lparr>linearized_ba := linearized_ba'\<rparr>;
          s8 = s7\<lparr>linearized_bg := linearized_bg'\<rparr>;
          s9 = s8\<lparr>jacobian := Identity_mat 15\<rparr>;
          s10 = s9\<lparr>covariance := Zero_mat\<rparr>
      in replay 0 s10)"

section \<open>The residual\<close>

text \<open>
  \<^verbatim>\<open>evaluate\<close> calls \<^verbatim>\<open>msckf_vio::deltaQ\<close> of the header
  \<^verbatim>\<open>math_utils.hpp\<close>, which this development does not model: the function is
  a parameter of \<open>evaluate\<close>. The 15 entries of \<^verbatim>\<open>residuals\<close> are
  assigned in five disjoint blocks of three at the offsets of \<^verbatim>\<open>StateOrder\<close>;
  the model returns them as the list of the entries 0 to 14, together with the object as
  the call leaves it.
\<close>

definition O_P :: nat where "O_P = 0"
definition O_R :: nat where "O_R = 3"
definition O_V :: nat where "O_V = 6"
definition O_BA :: nat where "O_BA = 9"
definition O_BG :: nat where "O_BG = 12"

definition coeffs :: "vec3 \<Rightarrow> real list" where
  "coeffs v = [vx v, vy v, vz v]"

definition evaluate ::
  "(vec3 \<Rightarrow> quat) \<Rightarrow> integration_state \<Rightarrow> vec3 \<Rightarrow> quat \<Rightarrow> vec3 \<Rightarrow> vec3 \<Rightarrow> vec3
     \<Rightarrow> vec3 \<Rightarrow> quat \<Rightarrow> vec3 \<Rightarrow> vec3 \<Rightarrow> vec3 \<Rightarrow> real list \<times> integration_state" where
  "evaluate deltaQ s P_i Q_i V_i Ba_i Bg_i P_j Q_j V_j Ba_j Bg_j =
     (let dp_dba = block3 (jacobian s) O_P O_BA;
          dp_dbg = block3 (jacobian s) O_P O_BG;
          dq_dbg = block3 (jacobian s) O_R O_BG;
          dv_dba = block3 (jacobian s) O_V O_BA;
          dv_dbg = block3 (jacobian s) O_V O_BG;
          dba = vsub Ba_i (linearized_ba s);
          dbg = vsub Bg_i (linearized_bg s);
          corrected_delta_q = qmul (delta_q s) (deltaQ (mat_vec3 dq_dbg dbg));
          corrected_delta_v = vadd (vadd (delta_v s) (mat_vec3 dv_dba dba)) (mat_vec3 dv_dbg dbg);
          corrected_delta_p = vadd (vadd (delta_p s) (mat_vec3 dp_dba dba)) (mat_vec3 dp_dbg dbg);
          r_P = vsub (qrot (qinverse Q_i)
                        (vsub (vsub (vadd (vmuls (vmuls (smulv 0.5 G) (sum_dt s)) (sum_dt s)) P_j) P_i)
                              (vmuls V_i (sum_dt s))))
                     corrected_delta_p;
          r_R = smulv 2 (quat_vec (qmul (qinverse corrected_delta_q) (qmul (qinverse Q_i) Q_j)));
          r_V = vsub (qrot (qinverse Q_i) (vsub (vadd (vmuls G (sum_dt s)) V_j) V_i))
                     corrected_delta_v;
          r_BA = vsub Ba_j Ba_i;
          r_BG = vsub Bg_j Bg_i
      in (coeffs r_P @ coeffs r_R @ coeffs r_V @ coeffs r_BA @ coeffs r_BG, s))"

section \<open>Sequences of samples and the predicates of the specification\<close>

text \<open>
  A caller that feeds a sequence of samples (elapsed time, specific force, angular rate)
  to an object through \<^verbatim>\<open>push_back\<close>, one after the other.
\<close>

type_synonym sample = "real \<times> vec3 \<times> vec3"

fun push_all :: "integration_state \<Rightarrow> sample list \<Rightarrow> integration_state" where
  "push_all s [] = s"
| "push_all s ((dt', acc, gyr) # xs) = push_all (push_back s dt' acc gyr) xs"

text \<open>
  The same sequence given to \<^verbatim>\<open>propagate\<close> directly, without buffering.
\<close>

fun propagate_all :: "integration_state \<Rightarrow> sample list \<Rightarrow> integration_state" where
  "propagate_all s [] = s"
| "propagate_all s ((dt', acc, gyr) # xs) = propagate_all (propagate s dt' acc gyr) xs"

definition with_bufs :: "integration_state \<Rightarrow> real list \<Rightarrow> vec3 list \<Rightarrow> vec3 list \<Rightarrow> integration_state" where
  "with_bufs s ds as gs = s\<lparr>dt_buf := ds, acc_buf := as, gyr_buf := gs\<rparr>"

definition reset_state :: "integration_state \<Rightarrow> vec3 \<Rightarrow> vec3 \<Rightarrow> integration_state" where
  \<comment> \<open>the object when the loop of \<^verbatim>\<open>repropagate\<close> starts\<close>
  "reset_state s ba bg =
     s\<lparr>sum_dt := 0, acc_0 := linearized_acc s, gyr_0 := linearized_gyr s,
       delta_p := vec3_Zero, delta_q := quat_Identity, delta_v := vec3_Zero,
       linearized_ba := ba, linearized_bg := bg,
       jacobian := Identity_mat 15, covariance := Zero_mat\<rparr>"

text \<open>
  Symmetry and positive semidefiniteness of the leading \<open>n\<close> by \<open>n\<close> part of a matrix:
  \<open>quad_form n P x\<close> is the quadratic form \<open>x\<^sup>T P x\<close>.
\<close>

definition symmetric_on :: "nat \<Rightarrow> mat \<Rightarrow> bool" where
  "symmetric_on n P \<longleftrightarrow> (\<forall>i<n. \<forall>j<n. P i j = P j i)"

definition quad_form :: "nat \<Rightarrow> mat \<Rightarrow> (nat \<Rightarrow> real) \<Rightarrow> real" where
  "quad_form n P x = (\<Sum>i<n. \<Sum>j<n. x i * P i j * x j)"

definition psd_on :: "nat \<Rightarrow> mat \<Rightarrow> bool" where
  "psd_on n P \<longleftrightarrow> (\<forall>x. 0 \<le> quad_form n P x)"

definition covariance_ok :: "integration_state \<Rightarrow> bool" where
  "covariance_ok s \<longleftrightarrow>
     noise s = noise_init \<and> symmetric_on 15 (covariance s) \<and> psd_on 15 (covariance s)"

text \<open>
  Two readings of the specification's wording that the code is compared with.
  The first takes ``the force at sample k+1 rotated by the post-update orientation'' at
  its word: the orientation is \<^verbatim>\<open>delta_q\<close> as the step leaves it, that is
  after \<^verbatim>\<open>normalize()\<close>. The second takes ``left-multiplying the current
  \<^verbatim>\<open>delta_q\<close> by the incremental rotation'' at its word: the increment is the
  left factor of the product.
\<close>

definition a_mean_post_update :: "integration_state \<Rightarrow> real \<Rightarrow> vec3 \<Rightarrow> vec3 \<Rightarrow> vec3" where
  "a_mean_post_update s dt' acc_1' gyr_1' =
     smulv 0.5 (vadd (qrot (delta_q s) (vsub (acc_0 s) (linearized_ba s)))
                     (qrot (delta_q (propagate s dt' acc_1' gyr_1')) (vsub acc_1' (linearized_ba s))))"

definition left_multiplied_delta_q :: "integration_state \<Rightarrow> real \<Rightarrow> vec3 \<Rightarrow> quat" where
  "left_multiplied_delta_q s dt' gyr_1' =
     (let w = vsub (smulv 0.5 (vadd (gyr_0 s) gyr_1')) (linearized_bg s);
          dq = Quaterniond 1 (0.5 * vx w * dt') (0.5 * vy w * dt') (0.5 * vz w * dt')
      in normalize_quat (qmul dq (delta_q s)))"

text \<open>
  A sample of a sensor at rest, for biases \<open>ba\<close> and \<open>bg\<close>: the bias-corrected specific
  force is the gravity vector \<^verbatim>\<open>G\<close> and the bias-corrected angular rate is zero.
  \<open>gravity_only\<close> is what such samples keep true of the object.
\<close>

definition stationary :: "vec3 \<Rightarrow> vec3 \<Rightarrow> sample \<Rightarrow> bool" where
  "stationary ba bg x \<longleftrightarrow> vsub (fst (snd x)) ba = G \<and> vsub (snd (snd x)) bg = vec3_Zero"

definition gravity_only :: "integration_state \<Rightarrow> bool" where
  "gravity_only s \<longleftrightarrow>
     vsub (acc_0 s) (linearized_ba s) = G \<and> vsub (gyr_0 s) (linearized_bg s) = vec3_Zero \<and>
     delta_q s = quat_Identity \<and>
     delta_v s = vmuls G (sum_dt s) \<and>
     delta_p s = vmuls (smulv 0.5 G) ((sum_dt s)\<^sup>2)"

text \<open>
  Two concrete objects: one fresh from the constructor with a first angular rate of 1.5
  rad/s about the x axis, and the same object after one sample of one second at that
  rate, whose orientation is the unit quaternion (4/5, 3/5, 0, 0).
\<close>

definition rest_state :: integration_state where
  "rest_state = IntegrationBase vec3_Zero (Vector3d (3 / 2) 0 0) vec3_Zero vec3_Zero"

definition turned_state :: integration_state where
  "turned_state = push_back rest_state 1 vec3_Zero (Vector3d (3 / 2) 0 0)"

section \<open>One step of propagation\<close>

lemmas vec_defs = vadd_def vsub_def smulv_def vmuls_def cross_def vec3_Zero_def quat_vec_def

lemmas step_defs = F_of_def V_of_def un_acc_of_def result_delta_q_of_def un_gyr_of_def

lemma midPointIntegration_results:
  "fst (midPointIntegration s d a0 g0 a1 g1 p q v ba bg True) =
     (let un_acc_0 = qrot q (vsub a0 ba);
          un_gyr = vsub (smulv 0.5 (vadd g0 g1)) bg;
          r_delta_q = qmul q (Quaterniond 1 (vx un_gyr * d / 2) (vy un_gyr * d / 2) (vz un_gyr * d / 2));
          un_acc_1 = qrot r_delta_q (vsub a1 ba);
          un_acc = smulv 0.5 (vadd un_acc_0 un_acc_1)
      in \<lparr> result_delta_p = vadd (vadd p (vmuls v d)) (vmuls (vmuls (smulv 0.5 un_acc) d) d),
           result_delta_q = r_delta_q,
           result_delta_v = vadd v (vmuls un_acc d),
           result_linearized_ba = ba, result_linearized_bg = bg \<rparr>)"
  by (simp add: midPointIntegration_def Let_def)

lemma midPointIntegration_object:
  "snd (midPointIntegration s d a0 g0 a1 g1 p q v ba bg True) =
     (let un_gyr = vsub (smulv 0.5 (vadd g0 g1)) bg;
          r_delta_q = qmul q (Quaterniond 1 (vx un_gyr * d / 2) (vy un_gyr * d / 2) (vz un_gyr * d / 2));
          F = step_F d a0 g0 a1 g1 q r_delta_q ba bg;
          V = step_V d a1 q r_delta_q ba
      in s\<lparr>jacobian := mmul 15 F (jacobian s),
            covariance := madd (mmul 15 (mmul 15 F (covariance s)) (mtranspose F))
                                (mmul 18 (mmul 18 V (noise s)) (mtranspose V))\<rparr>)"
  by (simp add: midPointIntegration_def Let_def)

lemma propagate_by_results:
  "propagate s d a1 g1 =
     (let mr = midPointIntegration (s\<lparr>dt := Some d, acc_1 := Some a1, gyr_1 := Some g1\<rparr>)
                 d (acc_0 s) (gyr_0 s) a1 g1
                 (delta_p s) (delta_q s) (delta_v s) (linearized_ba s) (linearized_bg s) True
      in (snd mr)\<lparr>delta_p := result_delta_p (fst mr),
                   delta_v := result_delta_v (fst mr),
                   linearized_ba := result_linearized_ba (fst mr),
                   linearized_bg := result_linearized_bg (fst mr),
                   delta_q := normalize_quat (result_delta_q (fst mr)),
                   sum_dt := sum_dt (snd mr) + the (dt (snd mr)),
                   acc_0 := the (acc_1 (snd mr)),
                   gyr_0 := the (gyr_1 (snd mr))\<rparr>)"
  unfolding propagate_def Let_def case_prod_beta
  by simp

lemma propagate_explicit:
  "propagate s d a1 g1 =
     s\<lparr>dt := Some d, acc_1 := Some a1, gyr_1 := Some g1,
       jacobian := mmul 15 (F_of s d a1 g1) (jacobian s),
       covariance :=
         madd (mmul 15 (mmul 15 (F_of s d a1 g1) (covariance s)) (mtranspose (F_of s d a1 g1)))
              (mmul 18 (mmul 18 (V_of s d a1 g1) (noise s)) (mtranspose (V_of s d a1 g1))),
       delta_p := vadd (vadd (delta_p s) (vmuls (delta_v s) d))
                       (vmuls (vmuls (smulv 0.5 (un_acc_of s d a1 g1)) d) d),
       delta_v := vadd (delta_v s) (vmuls (un_acc_of s d a1 g1) d),
       delta_q := normalize_quat (result_delta_q_of s d g1),
       sum_dt := sum_dt s + d,
       acc_0 := a1, gyr_0 := g1\<rparr>"
  unfolding propagate_by_results midPointIntegration_results midPointIntegration_object
    Let_def step_defs
  by simp

lemma propagate_fields:
  "dt_buf (propagate s d a g) = dt_buf s"
  "acc_buf (propagate s d a g) = acc_buf s"
  "gyr_buf (propagate s d a g) = gyr_buf s"
  "sum_dt (propagate s d a g) = sum_dt s + d"
  "acc_0 (propagate s d a g) = a"
  "gyr_0 (propagate s d a g) = g"
  "noise (propagate s d a g) = noise s"
  "linearized_acc (propagate s d a g) = linearized_acc s"
  "linearized_gyr (propagate s d a g) = linearized_gyr s"
  "linearized_ba (propagate s d a g) = linearized_ba s"
  "linearized_bg (propagate s d a g) = linearized_bg s"
  "delta_q (propagate s d a g) = normalize_quat (result_delta_q_of s d g)"
  "delta_v (propagate s d a g) = vadd (delta_v s) (vmuls (un_acc_of s d a g) d)"
  "delta_p (propagate s d a g) =
     vadd (vadd (delta_p s) (vmuls (delta_v s) d)) (vmuls (vmuls (smulv 0.5 (un_acc_of s d a g)) d) d)"
  "jacobian (propagate s d a g) = mmul 15 (F_of s d a g) (jacobian s)"
  "covariance (propagate s d a g) =
     madd (mmul 15 (mmul 15 (F_of s d a g) (covariance s)) (mtranspose (F_of s d a g)))
          (mmul 18 (mmul 18 (V_of s d a g) (noise s)) (mtranspose (V_of s d a g)))"
  by (simp_all add: propagate_explicit)

lemma sqrt_25_16: "sqrt (25 / 16) = 5 / 4"
  by (rule real_sqrt_unique) (simp_all add: power2_eq_square)

lemma rest_state_fields:
  "delta_q rest_state = quat_Identity" "delta_p rest_state = vec3_Zero"
  "delta_v rest_state = vec3_Zero" "acc_0 rest_state = vec3_Zero"
  "gyr_0 rest_state = Vector3d (3 / 2) 0 0"
  "linearized_ba rest_state = vec3_Zero" "linearized_bg rest_state = vec3_Zero"
  "dt_buf rest_state = []" "acc_buf rest_state = []" "gyr_buf rest_state = []"
  by (simp_all add: rest_state_def IntegrationBase_def)

lemma qrot_unit_preserves_length:
  assumes "squaredNorm q = 1"
  shows "vec_squaredNorm (qrot q v) = vec_squaredNorm v"
proof -
  obtain w x y z where q: "q = Quaterniond w x y z" by (cases q)
  obtain a b c where v: "v = Vector3d a b c" by (cases v)
  from assms have n: "x * x + y * y + z * z + w * w = 1"
    by (simp add: q squaredNorm_def)
  show ?thesis
    using n unfolding q v
    by (simp add: vec_squaredNorm_def qrot_def vec_defs Let_def) algebra
qed

text \<open>
  Claim C1, as amended. Every call \<^verbatim>\<open>propagate(dt, acc_1, gyr_1)\<close> advances the
  position and velocity increments by mid-point integration, \<open>delta_p\<close> becoming
  \<open>delta_p + delta_v*dt + 0.5*a_mean*dt^2\<close> and \<open>delta_v\<close> becoming
  \<open>delta_v + a_mean*dt\<close>, where \<open>a_mean\<close> is the average of the bias-corrected force at
  sample k transformed by the pre-update \<open>delta_q\<close> and the bias-corrected force at
  sample k+1 transformed by \<^verbatim>\<open>result_delta_q\<close>, the product of \<open>delta_q\<close> and the
  small-angle quaternion taken before it is renormalised. The transformation is Eigen's
  \<^verbatim>\<open>q * v\<close>, which is a rotation only for a quaternion of unit norm.
\<close>

theorem propagate_midpoint_increments:
  "let w = vsub (smulv 0.5 (vadd (gyr_0 s) gyr_1')) (linearized_bg s);
       q_product = qmul (delta_q s)
                     (Quaterniond 1 (0.5 * vx w * dt') (0.5 * vy w * dt') (0.5 * vz w * dt'));
       a_mean = smulv 0.5 (vadd (qrot (delta_q s) (vsub (acc_0 s) (linearized_ba s)))
                                (qrot q_product (vsub acc_1' (linearized_ba s))))
   in delta_p (propagate s dt' acc_1' gyr_1') =
        vadd (vadd (delta_p s) (vmuls (delta_v s) dt')) (vmuls (smulv 0.5 a_mean) (dt'\<^sup>2)) \<and>
      delta_v (propagate s dt' acc_1' gyr_1') = vadd (delta_v s) (vmuls a_mean dt')"
proof -
  have q: "Quaterniond 1 (0.5 * vx w * dt') (0.5 * vy w * dt') (0.5 * vz w * dt') =
           Quaterniond 1 (vx w * dt' / 2) (vy w * dt' / 2) (vz w * dt' / 2)" for w
    by simp
  have p: "vmuls (vmuls u dt') dt' = vmuls u (dt'\<^sup>2)" for u
    by (simp add: vmuls_def power2_eq_square mult.assoc)
  show ?thesis
    unfolding Let_def q
    by (simp only: propagate_fields un_acc_of_def result_delta_q_of_def un_gyr_of_def p simp_thms)
qed

theorem propagate_midpoint_increments_witness:
  "delta_p (propagate rest_state 1 (Vector3d 0 1 0) (Vector3d (3 / 2) 0 0)) =
     Vector3d 0 (- 1 / 32) (3 / 8) \<and>
   delta_v (propagate rest_state 1 (Vector3d 0 1 0) (Vector3d (3 / 2) 0 0)) =
     Vector3d 0 (- 1 / 16) (3 / 4)"
  using propagate_midpoint_increments [of rest_state "Vector3d (3 / 2) 0 0" 1 "Vector3d 0 1 0"]
  by (simp add: Let_def rest_state_fields vec_defs qrot_def qmul_def quat_Identity_def)

text \<open>
  Claim C1 as stated fails on the fresh object \<open>rest_state\<close> for one sample of one second
  with force (0, 1, 0) and angular rate (1.5, 0, 0). The code transforms the force by the
  product (1, 3/4, 0, 0), of norm 5/4, and gets (0, -1/8, 3/2), which is longer than the
  force and so is not the force rotated by any orientation; the orientation after the
  update is (4/5, 3/5, 0, 0), which rotates the force to (0, 7/25, 24/25). The velocity
  increment of the code is (0, -1/16, 3/4), the one of the claim (0, 7/50, 12/25).
\<close>

theorem post_update_rotation_counterexample:
  "qrot (result_delta_q_of rest_state 1 (Vector3d (3 / 2) 0 0)) (Vector3d 0 1 0) =
     Vector3d 0 (- 1 / 8) (3 / 2) \<and>
   qrot (delta_q (propagate rest_state 1 (Vector3d 0 1 0) (Vector3d (3 / 2) 0 0))) (Vector3d 0 1 0) =
     Vector3d 0 (7 / 25) (24 / 25) \<and>
   delta_v (propagate rest_state 1 (Vector3d 0 1 0) (Vector3d (3 / 2) 0 0)) =
     Vector3d 0 (- 1 / 16) (3 / 4) \<and>
   vadd (delta_v rest_state)
        (vmuls (a_mean_post_update rest_state 1 (Vector3d 0 1 0) (Vector3d (3 / 2) 0 0)) 1) =
     Vector3d 0 (7 / 50) (12 / 25) \<and>
   delta_v (propagate rest_state 1 (Vector3d 0 1 0) (Vector3d (3 / 2) 0 0)) \<noteq>
     vadd (delta_v rest_state)
          (vmuls (a_mean_post_update rest_state 1 (Vector3d 0 1 0) (Vector3d (3 / 2) 0 0)) 1)"
  by (simp add: a_mean_post_update_def propagate_fields rest_state_fields step_defs vec_defs
        qrot_def qmul_def quat_Identity_def normalize_quat_def squaredNorm_def sqrt_25_16 Let_def)

section \<open>The orientation update\<close>

lemma squaredNorm_qmul: "squaredNorm (qmul a b) = squaredNorm a * squaredNorm b"
  by (simp add: squaredNorm_def qmul_def) algebra

lemma squaredNorm_normalize: "0 < squaredNorm q \<Longrightarrow> squaredNorm (normalize_quat q) = 1"
proof -
  assume z: "0 < squaredNorm q"
  let ?r = "sqrt (squaredNorm q)"
  have r: "?r * ?r = squaredNorm q" using z by simp
  have "squaredNorm (normalize_quat q) =
        (qx q / ?r) * (qx q / ?r) + (qy q / ?r) * (qy q / ?r) + (qz q / ?r) * (qz q / ?r) +
        (qw q / ?r) * (qw q / ?r)"
    using z by (simp add: normalize_quat_def Let_def squaredNorm_def [of "Quaterniond a b c d" for a b c d])
  also have "\<dots> = (qx q * qx q + qy q * qy q + qz q * qz q + qw q * qw q) / (?r * ?r)"
    by (simp add: add_divide_distrib)
  also have "\<dots> = squaredNorm q / squaredNorm q"
    by (simp only: r) (simp add: squaredNorm_def)
  finally show ?thesis using z by simp
qed

lemma squaredNorm_increment: "0 < squaredNorm (Quaterniond 1 x y z)"
proof -
  have "0 \<le> x * x" "0 \<le> y * y" "0 \<le> z * z" by simp_all
  then have "0 < x * x + y * y + z * z + 1 * 1" by linarith
  then show ?thesis by (simp add: squaredNorm_def)
qed

lemma push_back_by_propagate:
  "push_back s d a g =
     with_bufs (propagate s d a g) (dt_buf s @ [d]) (acc_buf s @ [a]) (gyr_buf s @ [g])"
proof -
  have "push_back s d a g =
        propagate (with_bufs s (dt_buf s @ [d]) (acc_buf s @ [a]) (gyr_buf s @ [g])) d a g"
    unfolding push_back_def Let_def with_bufs_def by simp
  then show ?thesis by (simp add: propagate_explicit with_bufs_def step_defs)
qed

lemma turned_state_fields:
  "delta_q turned_state = Quaterniond (4 / 5) (3 / 5) 0 0"
  "gyr_0 turned_state = Vector3d (3 / 2) 0 0"
  "linearized_bg turned_state = vec3_Zero"
  unfolding turned_state_def
  by (simp_all add: push_back_by_propagate with_bufs_def propagate_fields rest_state_fields
        step_defs vec_defs qmul_def quat_Identity_def normalize_quat_def squaredNorm_def sqrt_25_16)

text \<open>
  Claim C2, as amended. For every call \<^verbatim>\<open>propagate(dt, acc_1, gyr_1)\<close> the new
  orientation is obtained by forming the unnormalised small-angle quaternion
  \<open>(1, 0.5*wx*dt, 0.5*wy*dt, 0.5*wz*dt)\<close> from the mean bias-corrected angular rate
  \<open>w = 0.5*(gyr_0 + gyr_1) - linearized_bg\<close>, multiplying the current \<open>delta_q\<close> on its
  right by this increment (\<open>delta_q\<close> is the left factor), and renormalising the product;
  the result has unit norm whenever the current \<open>delta_q\<close> is not zero.
\<close>

theorem propagate_orientation_right_multiplied:
  "let w = vsub (smulv 0.5 (vadd (gyr_0 s) gyr_1')) (linearized_bg s);
       dq = Quaterniond 1 (0.5 * vx w * dt') (0.5 * vy w * dt') (0.5 * vz w * dt')
   in delta_q (propagate s dt' acc_1' gyr_1') = normalize_quat (qmul (delta_q s) dq) \<and>
      (0 < squaredNorm (delta_q s) \<longrightarrow>
         squaredNorm (delta_q (propagate s dt' acc_1' gyr_1')) = 1)"
proof -
  have "0 < squaredNorm (result_delta_q_of s dt' gyr_1')" if "0 < squaredNorm (delta_q s)"
    using that unfolding result_delta_q_of_def squaredNorm_qmul
    by (intro mult_pos_pos squaredNorm_increment)
  then show ?thesis
    by (simp add: propagate_fields squaredNorm_normalize Let_def)
       (simp add: result_delta_q_of_def un_gyr_of_def)
qed

theorem propagate_orientation_right_multiplied_witness:
  "delta_q (propagate turned_state 1 vec3_Zero (Vector3d (- 3 / 2) 3 0)) =
     normalize_quat (qmul (Quaterniond (4 / 5) (3 / 5) 0 0) (Quaterniond 1 0 (3 / 4) 0)) \<and>
   squaredNorm (delta_q (propagate turned_state 1 vec3_Zero (Vector3d (- 3 / 2) 3 0))) = 1"
proof -
  note step = propagate_orientation_right_multiplied
    [of turned_state "Vector3d (- 3 / 2) 3 0" 1 vec3_Zero, unfolded Let_def]
  have h: "0 < squaredNorm (delta_q turned_state)"
    by (simp add: turned_state_fields squaredNorm_def)
  have "delta_q (propagate turned_state 1 vec3_Zero (Vector3d (- 3 / 2) 3 0)) =
          normalize_quat (qmul (Quaterniond (4 / 5) (3 / 5) 0 0) (Quaterniond 1 0 (3 / 4) 0))"
    using step by (simp add: turned_state_fields vec_defs)
  moreover have
    "squaredNorm (delta_q (propagate turned_state 1 vec3_Zero (Vector3d (- 3 / 2) 3 0))) = 1"
    using step h by blast
  ultimately show ?thesis by blast
qed

text \<open>
  Claim C2 as stated fails on \<open>turned_state\<close>, whose orientation is (4/5, 3/5, 0, 0) and
  whose last angular rate is (1.5, 0, 0): a sample of one second with angular rate
  (-1.5, 3, 0) has the mean rate (0, 1.5, 0) and the increment (1, 0, 3/4, 0). The code
  computes \<open>delta_q * increment\<close> and ends with (16/25, 12/25, 12/25, 9/25); the
  increment as the left factor gives (16/25, 12/25, 12/25, -9/25).
\<close>

theorem left_multiplication_counterexample:
  "delta_q (propagate turned_state 1 vec3_Zero (Vector3d (- 3 / 2) 3 0)) =
     Quaterniond (16 / 25) (12 / 25) (12 / 25) (9 / 25) \<and>
   left_multiplied_delta_q turned_state 1 (Vector3d (- 3 / 2) 3 0) =
     Quaterniond (16 / 25) (12 / 25) (12 / 25) (- 9 / 25) \<and>
   delta_q (propagate turned_state 1 vec3_Zero (Vector3d (- 3 / 2) 3 0)) \<noteq>
     left_multiplied_delta_q turned_state 1 (Vector3d (- 3 / 2) 3 0)"
  by (simp add: propagate_fields left_multiplied_delta_q_def turned_state_fields
        step_defs vec_defs qmul_def normalize_quat_def squaredNorm_def sqrt_25_16 Let_def)

section \<open>The uncertainty update\<close>

lemma mmul_Identity_right: "j < n \<Longrightarrow> mmul n A (Identity_mat n) i j = A i j"
  by (simp add: mmul_def Identity_mat_def if_distrib [of "\<lambda>x. _ * x"] cong: if_cong)

text \<open>
  Claim C3. On every propagation step \<^verbatim>\<open>jacobian\<close> is replaced by \<open>F * jacobian\<close>
  and \<^verbatim>\<open>covariance\<close> by \<open>F * covariance * F\<^sup>T + V * noise * V\<^sup>T\<close>, where \<open>F\<close> is the
  15x15 matrix and \<open>V\<close> the 15x18 matrix that \<^verbatim>\<open>midPointIntegration\<close> builds for
  that step from the object before the step and the new sample.
\<close>

theorem propagate_kalman_prediction:
  "jacobian (propagate s dt' acc_1' gyr_1') = mmul 15 (F_of s dt' acc_1' gyr_1') (jacobian s) \<and>
   covariance (propagate s dt' acc_1' gyr_1') =
     madd (mmul 15 (mmul 15 (F_of s dt' acc_1' gyr_1') (covariance s))
                   (mtranspose (F_of s dt' acc_1' gyr_1')))
          (mmul 18 (mmul 18 (V_of s dt' acc_1' gyr_1') (noise s))
                   (mtranspose (V_of s dt' acc_1' gyr_1')))"
  by (simp only: propagate_fields simp_thms)

theorem propagate_kalman_prediction_witness:
  "jacobian (propagate rest_state 1 (Vector3d 0 1 0) (Vector3d (3 / 2) 0 0)) 0 6 = 1 \<and>
   jacobian (propagate rest_state 1 (Vector3d 0 1 0) (Vector3d (3 / 2) 0 0)) =
     mmul 15 (F_of rest_state 1 (Vector3d 0 1 0) (Vector3d (3 / 2) 0 0)) (jacobian rest_state)"
  using propagate_kalman_prediction [of rest_state 1 "Vector3d 0 1 0" "Vector3d (3 / 2) 0 0"]
  by (simp add: rest_state_def IntegrationBase_def mmul_Identity_right)
     (simp add: F_of_def step_F_def Let_def set_block3_def mmuls_def Identity_mat_def)

section \<open>Sequences of samples\<close>

lemma propagate_with_bufs:
  "propagate (with_bufs s ds as gs) d a g = with_bufs (propagate s d a g) ds as gs"
  by (simp add: propagate_explicit with_bufs_def step_defs)

lemma propagate_all_with_bufs:
  "propagate_all (with_bufs s ds as gs) xs = with_bufs (propagate_all s xs) ds as gs"
  by (induction xs arbitrary: s) (auto simp: propagate_with_bufs)

lemma with_bufs_twice: "with_bufs (with_bufs s a b c) ds as gs = with_bufs s ds as gs"
  by (simp add: with_bufs_def)

lemma propagate_all_fields:
  "dt_buf (propagate_all s xs) = dt_buf s"
  "acc_buf (propagate_all s xs) = acc_buf s"
  "gyr_buf (propagate_all s xs) = gyr_buf s"
  "noise (propagate_all s xs) = noise s"
  "linearized_acc (propagate_all s xs) = linearized_acc s"
  "linearized_gyr (propagate_all s xs) = linearized_gyr s"
  "linearized_ba (propagate_all s xs) = linearized_ba s"
  "linearized_bg (propagate_all s xs) = linearized_bg s"
  by (induction xs arbitrary: s; auto simp: propagate_fields)+

lemma push_all_by_propagate_all:
  "push_all s xs =
     with_bufs (propagate_all s xs) (dt_buf s @ map fst xs)
       (acc_buf s @ map (\<lambda>x. fst (snd x)) xs) (gyr_buf s @ map (\<lambda>x. snd (snd x)) xs)"
proof (induction xs arbitrary: s)
  case Nil
  then show ?case by (simp add: with_bufs_def)
next
  case (Cons x xs)
  obtain d a g where x: "x = (d, a, g)" by (cases x)
  show ?case
    by (simp add: x Cons.IH push_back_by_propagate propagate_all_with_bufs with_bufs_twice)
       (simp add: with_bufs_def)
qed

lemma propagate_all_unit_quaternion:
  "squaredNorm (delta_q s) = 1 \<Longrightarrow> squaredNorm (delta_q (propagate_all s xs)) = 1"
proof (induction xs arbitrary: s)
  case Nil
  then show ?case by simp
next
  case (Cons x xs)
  obtain d a g where x: "x = (d, a, g)" by (cases x)
  have "0 < squaredNorm (result_delta_q_of s d g)"
    unfolding result_delta_q_of_def squaredNorm_qmul
    using Cons.prems by (simp add: squaredNorm_increment)
  then have "squaredNorm (delta_q (propagate s d a g)) = 1"
    by (simp add: propagate_fields squaredNorm_normalize)
  then show ?case by (simp add: x Cons.IH)
qed

lemma push_all_unit_quaternion:
  "squaredNorm (delta_q (push_all (IntegrationBase a g ba bg) xs)) = 1"
proof -
  have "squaredNorm (delta_q (IntegrationBase a g ba bg)) = 1"
    by (simp add: IntegrationBase_def quat_Identity_def squaredNorm_def)
  then have "squaredNorm (delta_q (propagate_all (IntegrationBase a g ba bg) xs)) = 1"
    by (rule propagate_all_unit_quaternion)
  then show ?thesis
    by (simp add: push_all_by_propagate_all with_bufs_def)
qed

section \<open>The covariance stays symmetric and positive semidefinite\<close>

lemma congruence_entry:
  "mmul n (mmul n A P) (mtranspose A) i j = (\<Sum>l<n. \<Sum>k<n. A i k * P k l * A j l)"
  by (simp add: mmul_def mtranspose_def sum_distrib_right)

lemma symmetric_on_congruence:
  assumes "symmetric_on n P"
  shows "symmetric_on m (mmul n (mmul n A P) (mtranspose A))"
  unfolding symmetric_on_def
proof (intro allI impI)
  fix i j
  have "(\<Sum>l<n. \<Sum>k<n. A i k * P k l * A j l) = (\<Sum>k<n. \<Sum>l<n. A i k * P k l * A j l)"
    by (rule sum.swap)
  also have "\<dots> = (\<Sum>k<n. \<Sum>l<n. A j l * P l k * A i k)"
    using assms by (intro sum.cong refl) (simp add: symmetric_on_def mult_ac)
  finally show "mmul n (mmul n A P) (mtranspose A) i j = mmul n (mmul n A P) (mtranspose A) j i"
    by (simp add: congruence_entry)
qed

lemma quad_form_congruence:
  "quad_form m (mmul n (mmul n A P) (mtranspose A)) x = quad_form n P (\<lambda>k. \<Sum>i<m. x i * A i k)"
proof -
  have "quad_form m (mmul n (mmul n A P) (mtranspose A)) x =
        (\<Sum>i<m. \<Sum>j<m. \<Sum>l<n. \<Sum>k<n. (x i * A i k) * P k l * (x j * A j l))"
    by (simp add: quad_form_def congruence_entry sum_distrib_left sum_distrib_right mult_ac)
  also have "\<dots> = (\<Sum>i<m. \<Sum>l<n. \<Sum>j<m. \<Sum>k<n. (x i * A i k) * P k l * (x j * A j l))"
    by (rule sum.cong [OF refl]) (rule sum.swap)
  also have "\<dots> = (\<Sum>l<n. \<Sum>i<m. \<Sum>j<m. \<Sum>k<n. (x i * A i k) * P k l * (x j * A j l))"
    by (rule sum.swap)
  also have "\<dots> = (\<Sum>l<n. \<Sum>i<m. \<Sum>k<n. \<Sum>j<m. (x i * A i k) * P k l * (x j * A j l))"
    by (rule sum.cong [OF refl], rule sum.cong [OF refl]) (rule sum.swap)
  also have "\<dots> = (\<Sum>l<n. \<Sum>k<n. \<Sum>i<m. \<Sum>j<m. (x i * A i k) * P k l * (x j * A j l))"
    by (rule sum.cong [OF refl]) (rule sum.swap)
  also have "\<dots> = (\<Sum>k<n. \<Sum>l<n. \<Sum>i<m. \<Sum>j<m. (x i * A i k) * P k l * (x j * A j l))"
    by (rule sum.swap)
  also have "\<dots> = quad_form n P (\<lambda>k. \<Sum>i<m. x i * A i k)"
    by (simp add: quad_form_def sum_distrib_left sum_distrib_right mult_ac)
  finally show ?thesis .
qed

lemma psd_on_congruence: "psd_on n P \<Longrightarrow> psd_on m (mmul n (mmul n A P) (mtranspose A))"
  by (simp add: psd_on_def quad_form_congruence)

lemma symmetric_on_madd: "symmetric_on n A \<Longrightarrow> symmetric_on n B \<Longrightarrow> symmetric_on n (madd A B)"
  by (simp add: symmetric_on_def madd_def)

lemma quad_form_madd: "quad_form n (madd A B) x = quad_form n A x + quad_form n B x"
  by (simp add: quad_form_def madd_def algebra_simps sum.distrib)

lemma psd_on_madd: "psd_on n A \<Longrightarrow> psd_on n B \<Longrightarrow> psd_on n (madd A B)"
  by (simp add: psd_on_def quad_form_madd)

lemma Zero_mat_symmetric_psd: "symmetric_on n Zero_mat" "psd_on n Zero_mat"
  by (simp_all add: symmetric_on_def psd_on_def quad_form_def Zero_mat_def)

lemma set_block3_scaled_identity:
  "set_block3 M r r (smulm a (Identity_mat 3)) i j =
     (if r \<le> i \<and> i < r + 3 \<and> r \<le> j \<and> j < r + 3 then (if i = j then a else 0) else M i j)"
  by (auto simp: set_block3_def smulm_def Identity_mat_def)

lemma noise_init_off_diagonal: "i \<noteq> j \<Longrightarrow> noise_init i j = 0"
  by (simp add: noise_init_def Let_def set_block3_scaled_identity Zero_mat_def)

lemma noise_init_diagonal: "0 \<le> noise_init i i"
  by (simp add: noise_init_def Let_def set_block3_scaled_identity Zero_mat_def)

lemma noise_init_symmetric: "symmetric_on 18 noise_init"
  unfolding symmetric_on_def
proof (intro allI impI)
  fix i j :: nat
  show "noise_init i j = noise_init j i"
    by (cases "i = j") (simp_all add: noise_init_off_diagonal)
qed

lemma noise_init_psd: "psd_on 18 noise_init"
  unfolding psd_on_def
proof
  fix x :: "nat \<Rightarrow> real"
  have "quad_form 18 noise_init x =
        (\<Sum>i<18. \<Sum>j<18. if j = i then x i * noise_init i i * x i else 0)"
    unfolding quad_form_def
    by (intro sum.cong refl) (simp add: noise_init_off_diagonal)
  also have "\<dots> = (\<Sum>i<18. noise_init i i * (x i * x i))"
    by (intro sum.cong refl) (simp add: mult_ac)
  also have "0 \<le> \<dots>"
    by (intro sum_nonneg mult_nonneg_nonneg [OF noise_init_diagonal zero_le_square])
  finally show "0 \<le> quad_form 18 noise_init x" .
qed

lemma covariance_ok_propagate: "covariance_ok s \<Longrightarrow> covariance_ok (propagate s d a g)"
  unfolding covariance_ok_def
  by (simp add: propagate_fields symmetric_on_madd psd_on_madd symmetric_on_congruence
        psd_on_congruence noise_init_symmetric noise_init_psd)

lemma covariance_ok_propagate_all: "covariance_ok s \<Longrightarrow> covariance_ok (propagate_all s xs)"
  by (induction xs arbitrary: s) (auto simp: covariance_ok_propagate)

text \<open>
  Claim C4. The covariance matrix is symmetric and positive semidefinite after every
  propagation step, for every sequence of samples, starting from the zero matrix of the
  constructor and with the constant diagonal noise matrix whose entries are the squared
  noise densities. The sequence \<open>xs\<close> is arbitrary, so the statement covers the object
  after each of its samples.
\<close>

theorem covariance_symmetric_psd:
  "symmetric_on 15 (covariance (push_all (IntegrationBase acc_0' gyr_0' ba bg) xs)) \<and>
   psd_on 15 (covariance (push_all (IntegrationBase acc_0' gyr_0' ba bg) xs))"
proof -
  have "covariance_ok (IntegrationBase acc_0' gyr_0' ba bg)"
    by (simp add: covariance_ok_def IntegrationBase_def Zero_mat_symmetric_psd)
  then have "covariance_ok (propagate_all (IntegrationBase acc_0' gyr_0' ba bg) xs)"
    by (rule covariance_ok_propagate_all)
  then show ?thesis
    by (simp add: covariance_ok_def push_all_by_propagate_all with_bufs_def)
qed

theorem covariance_symmetric_psd_witness:
  "covariance (push_all rest_state [(1, Vector3d 0 1 0, Vector3d (3 / 2) 0 0)]) 0 6 =
   covariance (push_all rest_state [(1, Vector3d 0 1 0, Vector3d (3 / 2) 0 0)]) 6 0 \<and>
   0 \<le> quad_form 15 (covariance (push_all rest_state [(1, Vector3d 0 1 0, Vector3d (3 / 2) 0 0)]))
          (\<lambda>i. if i = 0 then 1 else 0)"
  using covariance_symmetric_psd [of vec3_Zero "Vector3d (3 / 2) 0 0" vec3_Zero vec3_Zero
      "[(1, Vector3d 0 1 0, Vector3d (3 / 2) 0 0)]"]
  unfolding rest_state_def symmetric_on_def psd_on_def
  by simp

section \<open>Repropagation replays the buffered samples\<close>

lemma replay_propagate_all:
  assumes "dt_buf s = map fst xs" "acc_buf s = map (\<lambda>x. fst (snd x)) xs"
    "gyr_buf s = map (\<lambda>x. snd (snd x)) xs"
  shows "replay i s = Some (propagate_all s (drop i xs))"
  using assms
proof (induction i s rule: replay.induct)
  case (1 i s)
  show ?case
  proof (cases "i < length xs")
    case True
    then have d: "drop i xs = (dt_buf s ! i, acc_buf s ! i, gyr_buf s ! i) # drop (Suc i) xs"
      using 1(2-4) by (simp add: Cons_nth_drop_Suc [symmetric])
    have "replay i s = replay (Suc i) (propagate s (dt_buf s ! i) (acc_buf s ! i) (gyr_buf s ! i))"
      using True 1(2-4) by (subst replay.simps) simp
    also have "\<dots> = Some (propagate_all (propagate s (dt_buf s ! i) (acc_buf s ! i) (gyr_buf s ! i))
                              (drop (Suc i) xs))"
      using True 1(2-4) by (intro 1(1)) (simp_all add: propagate_fields)
    finally show ?thesis by (simp add: d)
  next
    case False
    then show ?thesis using 1(2-4) by (subst replay.simps) simp
  qed
qed

lemma propagate_transient:
  "propagate (s\<lparr>dt := x, acc_1 := y, gyr_1 := z\<rparr>) d a g = propagate s d a g"
  by (simp add: propagate_explicit step_defs)

lemma propagate_all_transient:
  "xs \<noteq> [] \<Longrightarrow> propagate_all (s\<lparr>dt := x, acc_1 := y, gyr_1 := z\<rparr>) xs = propagate_all s xs"
  by (cases xs) (auto simp: propagate_transient)

lemma repropagate_by_replay: "repropagate s ba bg = replay 0 (reset_state s ba bg)"
  unfolding repropagate_def reset_state_def Let_def by simp

lemma reset_state_pushed:
  "reset_state (with_bufs (propagate_all (IntegrationBase a g ba bg) xs) ds as gs) ba' bg' =
   (with_bufs (IntegrationBase a g ba' bg') ds as gs)
     \<lparr>dt := dt (propagate_all (IntegrationBase a g ba bg) xs),
      acc_1 := acc_1 (propagate_all (IntegrationBase a g ba bg) xs),
      gyr_1 := gyr_1 (propagate_all (IntegrationBase a g ba bg) xs)\<rparr>"
  by (rule integration_state.equality)
     (simp_all add: reset_state_def with_bufs_def propagate_all_fields,
      simp_all add: IntegrationBase_def)

lemma IntegrationBase_buffers:
  "dt_buf (IntegrationBase a g ba bg) = []" "acc_buf (IntegrationBase a g ba bg) = []"
  "gyr_buf (IntegrationBase a g ba bg) = []"
  by (simp_all add: IntegrationBase_def)

lemma repropagate_pushed:
  "repropagate (push_all (IntegrationBase a g ba bg) xs) ba' bg' =
   Some (push_all (IntegrationBase a g ba' bg') xs)"
proof (cases "xs = []")
  case True
  then show ?thesis
    by (simp add: repropagate_by_replay reset_state_def IntegrationBase_def replay.simps)
next
  case False
  let ?ds = "map fst xs" and ?as = "map (\<lambda>x. fst (snd x)) xs"
    and ?gs = "map (\<lambda>x. snd (snd x)) xs"
  let ?p = "propagate_all (IntegrationBase a g ba bg) xs"
  let ?r = "(with_bufs (IntegrationBase a g ba' bg') ?ds ?as ?gs)
              \<lparr>dt := dt ?p, acc_1 := acc_1 ?p, gyr_1 := gyr_1 ?p\<rparr>"
  have "repropagate (push_all (IntegrationBase a g ba bg) xs) ba' bg' = replay 0 ?r"
    by (simp add: repropagate_by_replay push_all_by_propagate_all IntegrationBase_buffers
          reset_state_pushed)
  also have "\<dots> = Some (propagate_all ?r (drop 0 xs))"
    by (rule replay_propagate_all) (simp_all add: with_bufs_def)
  also have "propagate_all ?r (drop 0 xs) =
             propagate_all (with_bufs (IntegrationBase a g ba' bg') ?ds ?as ?gs) xs"
    using False by (simp add: propagate_all_transient)
  also have "\<dots> = push_all (IntegrationBase a g ba' bg') xs"
    by (simp add: push_all_by_propagate_all IntegrationBase_buffers propagate_all_with_bufs)
  finally show ?thesis .
qed

lemma push_all_linearized:
  "linearized_acc (push_all (IntegrationBase a g ba bg) xs) = a"
  "linearized_gyr (push_all (IntegrationBase a g ba bg) xs) = g"
  "linearized_ba (push_all (IntegrationBase a g ba bg) xs) = ba"
  "linearized_bg (push_all (IntegrationBase a g ba bg) xs) = bg"
  by (simp_all add: push_all_by_propagate_all with_bufs_def propagate_all_fields
        IntegrationBase_def)

text \<open>
  Claim C5. For every object built from an initial sample and a bias pair and fed any
  sequence of samples through \<^verbatim>\<open>push_back\<close>, \<^verbatim>\<open>repropagate\<close> called with
  the \<^verbatim>\<open>linearized_ba\<close> and \<^verbatim>\<open>linearized_bg\<close> the object already uses
  returns, and leaves the object as it was: \<^verbatim>\<open>sum_dt\<close>, \<^verbatim>\<open>delta_p\<close>,
  \<^verbatim>\<open>delta_q\<close>, \<^verbatim>\<open>delta_v\<close>, \<^verbatim>\<open>jacobian\<close> and
  \<^verbatim>\<open>covariance\<close>, and every other member, equal their values after the original
  sequential propagation.
\<close>

theorem repropagate_same_bias_idempotent:
  "let s = push_all (IntegrationBase acc_0' gyr_0' ba bg) xs
   in linearized_ba s = ba \<and> linearized_bg s = bg \<and>
      repropagate s (linearized_ba s) (linearized_bg s) = Some s"
  unfolding Let_def by (simp add: push_all_linearized repropagate_pushed)

theorem repropagate_same_bias_idempotent_witness:
  "repropagate (push_all rest_state [(1, Vector3d 0 1 0, Vector3d (3 / 2) 0 0), (2, G, vec3_Zero)])
     vec3_Zero vec3_Zero =
   Some (push_all rest_state [(1, Vector3d 0 1 0, Vector3d (3 / 2) 0 0), (2, G, vec3_Zero)])"
proof -
  let ?s = "push_all rest_state [(1, Vector3d 0 1 0, Vector3d (3 / 2) 0 0), (2, G, vec3_Zero)]"
  note same = repropagate_same_bias_idempotent [of vec3_Zero "Vector3d (3 / 2) 0 0" vec3_Zero
      vec3_Zero "[(1, Vector3d 0 1 0, Vector3d (3 / 2) 0 0), (2, G, vec3_Zero)]",
      unfolded Let_def, folded rest_state_def]
  from same have a: "linearized_ba ?s = vec3_Zero" and b: "linearized_bg ?s = vec3_Zero"
    and c: "repropagate ?s (linearized_ba ?s) (linearized_bg ?s) = Some ?s"
    by blast+
  show ?thesis using c unfolding a b .
qed

text \<open>
  Claim C7. \<^verbatim>\<open>repropagate\<close> on an object whose sample buffer is empty replays
  nothing and only resets the state: \<^verbatim>\<open>sum_dt\<close> is 0, \<^verbatim>\<open>delta_p\<close> and
  \<^verbatim>\<open>delta_v\<close> are zero, \<^verbatim>\<open>delta_q\<close> is the identity,
  \<^verbatim>\<open>jacobian\<close> is the identity, \<^verbatim>\<open>covariance\<close> is zero,
  \<^verbatim>\<open>linearized_ba\<close> and \<^verbatim>\<open>linearized_bg\<close> are the given biases, and
  \<^verbatim>\<open>acc_0\<close> and \<^verbatim>\<open>gyr_0\<close> are the first sample again.
\<close>

theorem repropagate_empty_buffer:
  assumes "dt_buf s = []"
  shows "repropagate s ba bg =
     Some (s\<lparr>sum_dt := 0, acc_0 := linearized_acc s, gyr_0 := linearized_gyr s,
             delta_p := vec3_Zero, delta_q := quat_Identity, delta_v := vec3_Zero,
             linearized_ba := ba, linearized_bg := bg,
             jacobian := Identity_mat 15, covariance := Zero_mat\<rparr>)"
  using assms unfolding repropagate_def Let_def by (simp add: replay.simps)

theorem repropagate_empty_buffer_witness:
  "dt_buf (propagate rest_state 1 (Vector3d 0 1 0) (Vector3d (3 / 2) 0 0)) = [] \<and>
   map_option sum_dt
     (repropagate (propagate rest_state 1 (Vector3d 0 1 0) (Vector3d (3 / 2) 0 0)) G G) = Some 0 \<and>
   map_option delta_q
     (repropagate (propagate rest_state 1 (Vector3d 0 1 0) (Vector3d (3 / 2) 0 0)) G G) =
     Some quat_Identity \<and>
   map_option linearized_ba
     (repropagate (propagate rest_state 1 (Vector3d 0 1 0) (Vector3d (3 / 2) 0 0)) G G) = Some G \<and>
   map_option acc_0
     (repropagate (propagate rest_state 1 (Vector3d 0 1 0) (Vector3d (3 / 2) 0 0)) G G) =
     Some vec3_Zero"
proof -
  have e: "dt_buf (propagate rest_state 1 (Vector3d 0 1 0) (Vector3d (3 / 2) 0 0)) = []"
    by (simp add: propagate_fields rest_state_fields)
  show ?thesis
    using repropagate_empty_buffer [OF e, of G G]
    by (simp add: e propagate_fields) (simp add: rest_state_def IntegrationBase_def)
qed

text \<open>
  Claim C10. Every call to \<^verbatim>\<open>repropagate\<close> starts its replay from an object
  whose \<^verbatim>\<open>acc_0\<close> and \<^verbatim>\<open>gyr_0\<close> are \<^verbatim>\<open>linearized_acc\<close> and
  \<^verbatim>\<open>linearized_gyr\<close>; on an object built by the constructor and any number of
  \<^verbatim>\<open>push_back\<close> calls these two members still hold the constructor's first
  sample, and the replay with any biases gives exactly the object that a fresh
  construction from that first sample with those biases and the same calls gives.
\<close>

theorem repropagate_restores_first_sample:
  "repropagate t ba' bg' = replay 0 (reset_state t ba' bg') \<and>
   acc_0 (reset_state t ba' bg') = linearized_acc t \<and>
   gyr_0 (reset_state t ba' bg') = linearized_gyr t \<and>
   linearized_acc (push_all (IntegrationBase acc_0' gyr_0' ba bg) xs) = acc_0' \<and>
   linearized_gyr (push_all (IntegrationBase acc_0' gyr_0' ba bg) xs) = gyr_0' \<and>
   repropagate (push_all (IntegrationBase acc_0' gyr_0' ba bg) xs) ba' bg' =
     Some (push_all (IntegrationBase acc_0' gyr_0' ba' bg') xs)"
proof (intro conjI)
  show "repropagate t ba' bg' = replay 0 (reset_state t ba' bg')"
    by (rule repropagate_by_replay)
  show "acc_0 (reset_state t ba' bg') = linearized_acc t"
    and "gyr_0 (reset_state t ba' bg') = linearized_gyr t"
    by (simp_all add: reset_state_def)
  show "linearized_acc (push_all (IntegrationBase acc_0' gyr_0' ba bg) xs) = acc_0'"
    and "linearized_gyr (push_all (IntegrationBase acc_0' gyr_0' ba bg) xs) = gyr_0'"
    by (simp_all add: push_all_linearized)
  show "repropagate (push_all (IntegrationBase acc_0' gyr_0' ba bg) xs) ba' bg' =
          Some (push_all (IntegrationBase acc_0' gyr_0' ba' bg') xs)"
    by (rule repropagate_pushed)
qed

theorem repropagate_restores_first_sample_witness:
  "acc_0 (push_all rest_state [(1, Vector3d 0 1 0, Vector3d (3 / 2) 0 0)]) = Vector3d 0 1 0 \<and>
   linearized_acc (push_all rest_state [(1, Vector3d 0 1 0, Vector3d (3 / 2) 0 0)]) = vec3_Zero \<and>
   repropagate (push_all rest_state [(1, Vector3d 0 1 0, Vector3d (3 / 2) 0 0)]) G G =
     Some (push_all (IntegrationBase vec3_Zero (Vector3d (3 / 2) 0 0) G G)
             [(1, Vector3d 0 1 0, Vector3d (3 / 2) 0 0)])"
proof -
  let ?s = "push_all rest_state [(1, Vector3d 0 1 0, Vector3d (3 / 2) 0 0)]"
  note first = repropagate_restores_first_sample [of rest_state G G vec3_Zero
      "Vector3d (3 / 2) 0 0" vec3_Zero vec3_Zero "[(1, Vector3d 0 1 0, Vector3d (3 / 2) 0 0)]",
      folded rest_state_def]
  have "acc_0 ?s = Vector3d 0 1 0"
    by (simp add: push_back_by_propagate with_bufs_def propagate_fields)
  moreover from first have "linearized_acc ?s = vec3_Zero"
    and "repropagate ?s G G =
           Some (push_all (IntegrationBase vec3_Zero (Vector3d (3 / 2) 0 0) G G)
                   [(1, Vector3d 0 1 0, Vector3d (3 / 2) 0 0)])"
    by blast+
  ultimately show ?thesis by blast
qed

section \<open>The residual leaves the object alone\<close>

text \<open>
  Claim C6. For every object and every pair of endpoint states, \<^verbatim>\<open>evaluate\<close>
  returns a residual of 15 entries and leaves the object as it was, so that
  \<^verbatim>\<open>sum_dt\<close>, \<^verbatim>\<open>delta_p\<close>, \<^verbatim>\<open>delta_q\<close>, \<^verbatim>\<open>delta_v\<close>,
  \<^verbatim>\<open>linearized_ba\<close>, \<^verbatim>\<open>linearized_bg\<close>, \<^verbatim>\<open>jacobian\<close>,
  \<^verbatim>\<open>covariance\<close>, \<^verbatim>\<open>noise\<close> and the sample buffers are unchanged; a
  second call with the same arguments returns the same residual.
\<close>

theorem evaluate_no_mutation:
  "snd (evaluate deltaQ s P_i Q_i V_i Ba_i Bg_i P_j Q_j V_j Ba_j Bg_j) = s \<and>
   length (fst (evaluate deltaQ s P_i Q_i V_i Ba_i Bg_i P_j Q_j V_j Ba_j Bg_j)) = 15 \<and>
   fst (evaluate deltaQ (snd (evaluate deltaQ s P_i Q_i V_i Ba_i Bg_i P_j Q_j V_j Ba_j Bg_j))
          P_i Q_i V_i Ba_i Bg_i P_j Q_j V_j Ba_j Bg_j) =
   fst (evaluate deltaQ s P_i Q_i V_i Ba_i Bg_i P_j Q_j V_j Ba_j Bg_j)"
proof -
  have "snd (evaluate deltaQ s P_i Q_i V_i Ba_i Bg_i P_j Q_j V_j Ba_j Bg_j) = s"
    unfolding evaluate_def Let_def by simp
  moreover have "length (fst (evaluate deltaQ s P_i Q_i V_i Ba_i Bg_i P_j Q_j V_j Ba_j Bg_j)) = 15"
    unfolding evaluate_def Let_def by (simp add: coeffs_def)
  ultimately show ?thesis by simp
qed

theorem evaluate_no_mutation_witness:
  "snd (evaluate (\<lambda>v. Quaterniond 1 (vx v / 2) (vy v / 2) (vz v / 2)) turned_state
          vec3_Zero quat_Identity vec3_Zero vec3_Zero vec3_Zero
          G (Quaterniond (4 / 5) (3 / 5) 0 0) G G G) = turned_state \<and>
   length (fst (evaluate (\<lambda>v. Quaterniond 1 (vx v / 2) (vy v / 2) (vz v / 2)) turned_state
          vec3_Zero quat_Identity vec3_Zero vec3_Zero vec3_Zero
          G (Quaterniond (4 / 5) (3 / 5) 0 0) G G G)) = 15"
  using evaluate_no_mutation [of "\<lambda>v. Quaterniond 1 (vx v / 2) (vy v / 2) (vz v / 2)" turned_state
      vec3_Zero quat_Identity vec3_Zero vec3_Zero vec3_Zero
      G "Quaterniond (4 / 5) (3 / 5) 0 0" G G G]
  by blast

section \<open>A sensor at rest\<close>

lemma normalize_Identity: "normalize_quat quat_Identity = quat_Identity"
  by (simp add: normalize_quat_def quat_Identity_def squaredNorm_def)

lemma qrot_Identity: "qrot quat_Identity v = v"
  by (cases v) (simp add: qrot_def quat_Identity_def vec_defs Let_def)

lemma vsub_Zero_iff: "vsub u v = vec3_Zero \<longleftrightarrow> u = v"
  by (cases u; cases v) (simp add: vec_defs)

lemma gravity_only_step:
  assumes "gravity_only s" "vsub a (linearized_ba s) = G" "vsub g (linearized_bg s) = vec3_Zero"
  shows "gravity_only (propagate s d a g)"
proof -
  have g0: "gyr_0 s = linearized_bg s" and g1: "g = linearized_bg s"
    using assms by (simp_all add: gravity_only_def vsub_Zero_iff)
  have q: "delta_q s = quat_Identity" and a0: "vsub (acc_0 s) (linearized_ba s) = G"
    and v: "delta_v s = vmuls G (sum_dt s)"
    and p: "delta_p s = vmuls (smulv 0.5 G) ((sum_dt s)\<^sup>2)"
    using assms(1) by (simp_all add: gravity_only_def)
  have w: "un_gyr_of s g = vec3_Zero"
    by (simp add: un_gyr_of_def g0 g1 vec_defs)
  have r: "result_delta_q_of s d g = quat_Identity"
    by (simp add: result_delta_q_of_def w q) (simp add: qmul_def quat_Identity_def vec3_Zero_def)
  have u: "un_acc_of s d a g = G"
    by (simp add: un_acc_of_def r q qrot_Identity a0 assms(2)) (simp add: vec_defs G_def)
  show ?thesis
    unfolding gravity_only_def
    by (simp add: propagate_fields r u normalize_Identity assms(2,3) v p)
       (simp add: vec_defs G_def power2_eq_square algebra_simps)
qed

lemma gravity_only_all:
  "gravity_only s \<Longrightarrow> list_all (stationary (linearized_ba s) (linearized_bg s)) xs \<Longrightarrow>
   gravity_only (propagate_all s xs)"
proof (induction xs arbitrary: s)
  case Nil
  then show ?case by simp
next
  case (Cons x xs)
  obtain d a g where x: "x = (d, a, g)" by (cases x)
  have "gravity_only (propagate s d a g)"
    using Cons.prems by (intro gravity_only_step) (simp_all add: x stationary_def)
  then show ?case
    using Cons.prems by (simp add: x Cons.IH propagate_fields)
qed

text \<open>
  Claim C8, as amended. If the first sample and every later sample have zero
  bias-corrected angular rate and a bias-corrected specific force equal to the gravity
  vector \<^verbatim>\<open>G\<close> (true acceleration zero), then after any number of steps
  \<^verbatim>\<open>delta_q\<close> is still the identity, while \<^verbatim>\<open>delta_v\<close> is
  \<open>G * sum_dt\<close> and \<^verbatim>\<open>delta_p\<close> is \<open>0.5 * G * sum_dt^2\<close>: the propagation does
  not subtract gravity, which only \<^verbatim>\<open>evaluate\<close> takes into account.
\<close>

theorem gravity_only_motion:
  assumes "vsub acc_0' ba = G" and "vsub gyr_0' bg = vec3_Zero"
    and "list_all (stationary ba bg) xs"
  shows "delta_q (push_all (IntegrationBase acc_0' gyr_0' ba bg) xs) = quat_Identity \<and>
         delta_v (push_all (IntegrationBase acc_0' gyr_0' ba bg) xs) =
           vmuls G (sum_dt (push_all (IntegrationBase acc_0' gyr_0' ba bg) xs)) \<and>
         delta_p (push_all (IntegrationBase acc_0' gyr_0' ba bg) xs) =
           vmuls (smulv 0.5 G) ((sum_dt (push_all (IntegrationBase acc_0' gyr_0' ba bg) xs))\<^sup>2)"
proof -
  have "gravity_only (IntegrationBase acc_0' gyr_0' ba bg)"
    using assms(1,2) by (simp add: gravity_only_def IntegrationBase_def) (simp add: vec_defs)
  moreover have "list_all (stationary (linearized_ba (IntegrationBase acc_0' gyr_0' ba bg))
                   (linearized_bg (IntegrationBase acc_0' gyr_0' ba bg))) xs"
    using assms(3) by (simp add: IntegrationBase_def)
  ultimately have "gravity_only (propagate_all (IntegrationBase acc_0' gyr_0' ba bg) xs)"
    by (rule gravity_only_all)
  then show ?thesis
    by (simp add: gravity_only_def push_all_by_propagate_all with_bufs_def)
qed

theorem gravity_only_motion_witness:
  "delta_q (push_all (IntegrationBase (Vector3d 1 2 (1281 / 100)) (Vector3d 0 0 1)
                        (Vector3d 1 2 3) (Vector3d 0 0 1))
              [(1, Vector3d 1 2 (1281 / 100), Vector3d 0 0 1),
               (2, Vector3d 1 2 (1281 / 100), Vector3d 0 0 1)]) = quat_Identity \<and>
   delta_v (push_all (IntegrationBase (Vector3d 1 2 (1281 / 100)) (Vector3d 0 0 1)
                        (Vector3d 1 2 3) (Vector3d 0 0 1))
              [(1, Vector3d 1 2 (1281 / 100), Vector3d 0 0 1),
               (2, Vector3d 1 2 (1281 / 100), Vector3d 0 0 1)]) = Vector3d 0 0 (2943 / 100)"
proof -
  let ?a = "Vector3d 1 2 (1281 / 100)" and ?g = "Vector3d 0 0 1" and ?ba = "Vector3d 1 2 3"
  let ?s = "push_all (IntegrationBase ?a ?g ?ba ?g) [(1, ?a, ?g), (2, ?a, ?g)]"
  have h: "vsub ?a ?ba = G" "vsub ?g ?g = vec3_Zero"
    "list_all (stationary ?ba ?g) [(1, ?a, ?g), (2, ?a, ?g)]"
    by (simp_all add: stationary_def vec_defs G_def)
  have t: "sum_dt ?s = 3"
    by (simp add: push_back_by_propagate with_bufs_def propagate_fields IntegrationBase_def)
  from gravity_only_motion [OF h] have q: "delta_q ?s = quat_Identity"
    and v: "delta_v ?s = vmuls G (sum_dt ?s)"
    by blast+
  have "delta_v ?s = Vector3d 0 0 (2943 / 100)"
    unfolding v t by (simp add: vec_defs G_def)
  with q show ?thesis by blast
qed

text \<open>
  Claim C8 as stated fails on one sample of one second: no bias, zero angular rate,
  specific force \<^verbatim>\<open>G\<close> in the first sample and in the pushed one. The orientation
  stays the identity, but \<^verbatim>\<open>delta_v\<close> becomes (0, 0, 9.81) and
  \<^verbatim>\<open>delta_p\<close> becomes (0, 0, 4.905).
\<close>

theorem zero_motion_counterexample:
  "delta_q (push_all (IntegrationBase G vec3_Zero vec3_Zero vec3_Zero) [(1, G, vec3_Zero)]) =
     quat_Identity \<and>
   delta_v (push_all (IntegrationBase G vec3_Zero vec3_Zero vec3_Zero) [(1, G, vec3_Zero)]) =
     Vector3d 0 0 (981 / 100) \<and>
   delta_p (push_all (IntegrationBase G vec3_Zero vec3_Zero vec3_Zero) [(1, G, vec3_Zero)]) =
     Vector3d 0 0 (981 / 200) \<and>
   delta_v (push_all (IntegrationBase G vec3_Zero vec3_Zero vec3_Zero) [(1, G, vec3_Zero)]) \<noteq>
     vec3_Zero \<and>
   delta_p (push_all (IntegrationBase G vec3_Zero vec3_Zero vec3_Zero) [(1, G, vec3_Zero)]) \<noteq>
     vec3_Zero"
  by (simp add: push_back_by_propagate with_bufs_def propagate_fields IntegrationBase_def
        step_defs vec_defs qrot_def qmul_def quat_Identity_def normalize_quat_def squaredNorm_def
        G_def Let_def)

section \<open>A non-positive time step\<close>

text \<open>
  Claim C9, as amended. A non-positive \<^verbatim>\<open>dt\<close> passed to
  \<^verbatim>\<open>push_back\<close> or \<^verbatim>\<open>propagate\<close> is not rejected: neither function
  has a check or a failure path. The sample is integrated like any other,
  \<^verbatim>\<open>sum_dt\<close> becomes \<open>sum_dt + dt\<close> and so does not grow, and
  \<^verbatim>\<open>push_back\<close> appends the sample to the three buffers.
\<close>

theorem non_positive_dt_integrated:
  assumes "dt' \<le> 0"
  shows "sum_dt (propagate s dt' acc gyr) = sum_dt s + dt' \<and>
         sum_dt (propagate s dt' acc gyr) \<le> sum_dt s \<and>
         push_back s dt' acc gyr =
           (propagate s dt' acc gyr)\<lparr>dt_buf := dt_buf s @ [dt'], acc_buf := acc_buf s @ [acc],
                                     gyr_buf := gyr_buf s @ [gyr]\<rparr>"
  using assms by (simp add: propagate_fields push_back_by_propagate with_bufs_def)

theorem non_positive_dt_integrated_witness:
  "sum_dt (propagate turned_state 0 G vec3_Zero) = sum_dt turned_state \<and>
   dt_buf (push_back turned_state 0 G vec3_Zero) = [1, 0]"
proof -
  have h: "(0::real) \<le> 0" by simp
  have b: "dt_buf turned_state = [1]"
    by (simp add: turned_state_def push_back_by_propagate with_bufs_def rest_state_fields)
  from non_positive_dt_integrated [OF h, of turned_state G vec3_Zero]
  have "sum_dt (propagate turned_state 0 G vec3_Zero) = sum_dt turned_state + 0"
    and "push_back turned_state 0 G vec3_Zero =
           (propagate turned_state 0 G vec3_Zero)\<lparr>dt_buf := dt_buf turned_state @ [0],
              acc_buf := acc_buf turned_state @ [G], gyr_buf := gyr_buf turned_state @ [vec3_Zero]\<rparr>"
    by blast+
  then show ?thesis by (simp add: b)
qed

text \<open>
  Claim C9 as stated fails on a fresh object with all vectors zero:
  \<^verbatim>\<open>push_back(-1, (1, 0, 0), 0)\<close> returns normally with the sample buffered,
  \<^verbatim>\<open>sum_dt\<close> equal to -1 and \<^verbatim>\<open>delta_v\<close> equal to (-1/2, 0, 0).
\<close>

theorem negative_dt_counterexample:
  "sum_dt (push_back (IntegrationBase vec3_Zero vec3_Zero vec3_Zero vec3_Zero)
             (- 1) (Vector3d 1 0 0) vec3_Zero) = - 1 \<and>
   dt_buf (push_back (IntegrationBase vec3_Zero vec3_Zero vec3_Zero vec3_Zero)
             (- 1) (Vector3d 1 0 0) vec3_Zero) = [- 1] \<and>
   delta_v (push_back (IntegrationBase vec3_Zero vec3_Zero vec3_Zero vec3_Zero)
              (- 1) (Vector3d 1 0 0) vec3_Zero) = Vector3d (- 1 / 2) 0 0"
  by (simp add: push_back_by_propagate with_bufs_def propagate_fields)
     (simp add: IntegrationBase_def step_defs vec_defs qrot_def qmul_def quat_Identity_def Let_def)

end
